theory Spec2Isabelle
  imports Main "HOL-Library.AList"
begin

section \<open>Discord <-> Stoat bridge: a shallow embedding of bridge.py\<close>

subsection \<open>Values of the Python program\<close>

text \<open>
  A Python \<open>str\<close> is a sequence of Unicode code points, and \<open>s[:n]\<close> counts code
  points; so a string is a list with one element per code point.  Discord identifiers
  are Python \<open>int\<close>s, Stoat identifiers are strings.
\<close>

type_synonym str = "nat list"

text \<open>
  A Python \<open>dict\<close> keeps its keys in insertion order; assigning to a key that is
  present replaces the value in place, assigning to a new key appends it.  That is an
  association list under \<open>AList.update\<close>.
\<close>

type_synonym ('k, 'v) dict = "('k \<times> 'v) list"

definition dict_set :: "'k \<Rightarrow> 'v \<Rightarrow> ('k, 'v) dict \<Rightarrow> ('k, 'v) dict" where
  "dict_set k v m = AList.update k v m"

definition dict_get :: "('k, 'v) dict \<Rightarrow> 'k \<Rightarrow> 'v option" where
  "dict_get m k = map_of m k"

definition dict_values :: "('k, 'v) dict \<Rightarrow> 'v list" where
  "dict_values m = map snd m"

text \<open>
  What a \<open>raise\<close> carries.  \<open>except Exception\<close> catches the instances of
  \<open>Exception\<close> only; cancellation and interrupts derive from \<open>BaseException\<close>
  alone and pass through such a handler.
\<close>

datatype py_raise =
    RuntimeError nat nat
  | PyException str
  | PyBaseException str

record webhook =
  wh_id :: int
  wh_name :: str

record stoat_channel =
  ch_id :: str
  ch_name :: str

subsection \<open>Module level: the pair table (lines 66--86)\<close>

record globals =
  PAIR_COUNT :: nat
  STOAT_TO_DISCORD :: "(str, int) dict"
  DISCORD_TO_STOAT :: "(int, str) dict"
  discord_webhooks :: "(int, webhook) dict"
  stoat_channels :: "(str, stoat_channel) dict"

text \<open>
  \<open>{s: d for d, s in zip(DISCORD_CHANNEL_IDS, STOAT_CHANNEL_IDS)}\<close> and
  \<open>{d: s for d, s in zip(...)}\<close>: each pair of the zip, in order, is assigned into a
  dict that starts empty.
\<close>

definition build_STOAT_TO_DISCORD :: "int list \<Rightarrow> str list \<Rightarrow> (str, int) dict" where
  "build_STOAT_TO_DISCORD ds ss = foldl (\<lambda>m (d, s). dict_set s d m) [] (zip ds ss)"

definition build_DISCORD_TO_STOAT :: "int list \<Rightarrow> str list \<Rightarrow> (int, str) dict" where
  "build_DISCORD_TO_STOAT ds ss = foldl (\<lambda>m (d, s). dict_set d s m) [] (zip ds ss)"

text \<open>
  The module body from the length check on.  The \<open>raise\<close> aborts the import, so none
  of the names below it is ever bound: the result is the error alone.
\<close>

definition module_init :: "int list \<Rightarrow> str list \<Rightarrow> py_raise + globals" where
  "module_init DISCORD_CHANNEL_IDS STOAT_CHANNEL_IDS =
     (if length DISCORD_CHANNEL_IDS \<noteq> length STOAT_CHANNEL_IDS
      then Inl (RuntimeError (length DISCORD_CHANNEL_IDS) (length STOAT_CHANNEL_IDS))
      else Inr \<lparr> PAIR_COUNT = length DISCORD_CHANNEL_IDS,
                 STOAT_TO_DISCORD = build_STOAT_TO_DISCORD DISCORD_CHANNEL_IDS STOAT_CHANNEL_IDS,
                 DISCORD_TO_STOAT = build_DISCORD_TO_STOAT DISCORD_CHANNEL_IDS STOAT_CHANNEL_IDS,
                 discord_webhooks = [],
                 stoat_channels = [] \<rparr>)"

subsection \<open>Events, outbound calls and the trace of a handler\<close>

record stoat_user =
  su_display_name :: "str option"
  su_name :: str
  su_avatar :: "str option"  \<comment> \<open>the asset, given by what \<open>avatar.url()\<close> returns\<close>

record stoat_message =
  sm_author_id :: str
  sm_channel_id :: str
  sm_content :: str
  sm_author :: stoat_user

record discord_user =
  du_id :: int
  du_display_name :: str
  du_avatar :: "str option"  \<comment> \<open>the asset, given by \<open>str(avatar.url)\<close>\<close>
  du_default_avatar :: str   \<comment> \<open>\<open>str(default_avatar.url)\<close>, always present\<close>

record discord_message =
  dm_webhook_id :: "int option"
  dm_channel_id :: int
  dm_content :: str
  dm_author :: discord_user

record StoatBot =
  me_id :: str

record DiscordBot =
  user_id :: int

text \<open>The keyword arguments of \<open>webhook.send(...)\<close> and of \<open>ch.send(...)\<close>.\<close>

record webhook_send_call =
  ws_target :: webhook
  ws_content :: str
  ws_username :: str
  ws_avatar_url :: "str option"
  ws_wait :: bool

record masquerade =
  mq_name :: str
  mq_avatar :: str

record channel_send_call =
  cs_target :: stoat_channel
  cs_content :: str
  cs_masquerade :: masquerade

datatype level = INFO | WARNING | ERROR

text \<open>The four f-strings the handlers log, by their interpolated values.\<close>

datatype log_text =
    Stoat_to_Discord_not_ready int
  | Stoat_to_Discord_failed int py_raise
  | Discord_to_Stoat_not_ready str
  | Discord_to_Stoat_failed str py_raise

text \<open>
  Everything a handler does besides computing: reads of the two registries, outbound
  send calls (recorded when issued, whether or not they then fail) and log records,
  in program order.
\<close>

datatype effect =
    Get_discord_webhooks int
  | Values_discord_webhooks
  | Get_stoat_channels str
  | Webhook_send webhook_send_call
  | Channel_send channel_send_call
  | Log level log_text

record outcome =
  effects :: "effect list"
  escaped :: "py_raise option"
  globals_after :: globals

definition returns :: "globals \<Rightarrow> effect list \<Rightarrow> outcome" where
  "returns g effs = \<lparr> effects = effs, escaped = None, globals_after = g \<rparr>"

definition raises :: "globals \<Rightarrow> effect list \<Rightarrow> py_raise \<Rightarrow> outcome" where
  "raises g effs e = \<lparr> effects = effs, escaped = Some e, globals_after = g \<rparr>"

fun is_Exception :: "py_raise \<Rightarrow> bool" where
  "is_Exception (RuntimeError _ _) = True"
| "is_Exception (PyException _) = True"
| "is_Exception (PyBaseException _) = False"

text \<open>\<open>a or b\<close> on an optional string: \<open>None\<close> and the empty string are falsy.\<close>

fun py_or :: "str option \<Rightarrow> str \<Rightarrow> str" where
  "py_or None b = b"
| "py_or (Some a) b = (if a = [] then b else a)"

subsection \<open>StoatBot.on_message_create (lines 104--137)\<close>

text \<open>
  The outbound call is made by the Discord library; what it does is a parameter:
  \<open>send call = None\<close> when the call returns, \<open>Some e\<close> when it raises \<open>e\<close>.
\<close>

text \<open>
  Lines 125--127 and the keyword arguments of lines 130--135: the author name is
  \<open>display_name or name\<close>, the avatar URL is \<open>avatar.url() if avatar else None\<close>.
\<close>

definition webhook_send_args :: "webhook \<Rightarrow> stoat_message \<Rightarrow> webhook_send_call" where
  "webhook_send_args wh msg =
     (let author_name = py_or (su_display_name (sm_author msg)) (su_name (sm_author msg));
          avatar = su_avatar (sm_author msg);
          avatar_url = (case avatar of Some url \<Rightarrow> Some url | None \<Rightarrow> None)
      in \<lparr> ws_target = wh,
           ws_content = take 2000 (sm_content msg),
           ws_username = take 80 author_name,
           ws_avatar_url = avatar_url,
           ws_wait = True \<rparr>)"

definition on_message_create ::
  "StoatBot \<Rightarrow> globals \<Rightarrow> (webhook_send_call \<Rightarrow> py_raise option) \<Rightarrow> stoat_message \<Rightarrow> outcome"
where
  "on_message_create self g send msg =
     (if sm_author_id msg = me_id self then returns g []
      else
        let stoat_id = sm_channel_id msg in
        case dict_get (STOAT_TO_DISCORD g) stoat_id of
          None \<Rightarrow> returns g []
        | Some discord_id \<Rightarrow>
            if sm_content msg = [] then returns g []
            else
              (case dict_get (discord_webhooks g) discord_id of
                 None \<Rightarrow>
                   returns g [Get_discord_webhooks discord_id,
                              Log WARNING (Stoat_to_Discord_not_ready discord_id)]
               | Some wh \<Rightarrow>
                   let call = webhook_send_args wh msg in
                   (case send call of
                      None \<Rightarrow> returns g [Get_discord_webhooks discord_id, Webhook_send call]
                    | Some e \<Rightarrow>
                        if is_Exception e
                        then returns g [Get_discord_webhooks discord_id, Webhook_send call,
                                        Log ERROR (Stoat_to_Discord_failed discord_id e)]
                        else raises g [Get_discord_webhooks discord_id, Webhook_send call] e)))"

subsection \<open>DiscordBot.on_message (lines 184--217)\<close>

text \<open>
  \<open>message.webhook_id and message.webhook_id in {wh.id for wh in discord_webhooks.values()}\<close>:
  \<open>and\<close> evaluates its right operand, which reads the registry, only when the left one is
  truthy; \<open>None\<close> and \<open>0\<close> are falsy.
\<close>

definition webhook_id_truthy :: "discord_message \<Rightarrow> bool" where
  "webhook_id_truthy message = (case dm_webhook_id message of None \<Rightarrow> False | Some w \<Rightarrow> w \<noteq> 0)"

definition own_webhook :: "globals \<Rightarrow> discord_message \<Rightarrow> bool" where
  "own_webhook g message =
     (case dm_webhook_id message of
        None \<Rightarrow> False
      | Some w \<Rightarrow> w \<noteq> 0 \<and> w \<in> set (map wh_id (dict_values (discord_webhooks g))))"

text \<open>
  Lines 202--206 and the arguments of lines 209--215: the avatar URL falls back to the
  author's default avatar.
\<close>

definition channel_send_args :: "stoat_channel \<Rightarrow> discord_message \<Rightarrow> channel_send_call" where
  "channel_send_args ch message =
     (let avatar_url =
            (case du_avatar (dm_author message) of
               Some url \<Rightarrow> url
             | None \<Rightarrow> du_default_avatar (dm_author message))
      in \<lparr> cs_target = ch,
           cs_content = take 2000 (dm_content message),
           cs_masquerade =
             \<lparr> mq_name = take 32 (du_display_name (dm_author message)),
               mq_avatar = avatar_url \<rparr> \<rparr>)"

definition on_message ::
  "DiscordBot \<Rightarrow> globals \<Rightarrow> (channel_send_call \<Rightarrow> py_raise option) \<Rightarrow> discord_message \<Rightarrow> outcome"
where
  "on_message self g send message =
     (let pre = (if webhook_id_truthy message then [Values_discord_webhooks] else []) in
      if own_webhook g message then returns g pre
      else
        let discord_id = dm_channel_id message in
        case dict_get (DISCORD_TO_STOAT g) discord_id of
          None \<Rightarrow> returns g pre
        | Some stoat_id \<Rightarrow>
            if dm_content message = [] then returns g pre
            else
              (case dict_get (stoat_channels g) stoat_id of
                 None \<Rightarrow>
                   returns g (pre @ [Get_stoat_channels stoat_id,
                                     Log WARNING (Discord_to_Stoat_not_ready stoat_id)])
               | Some ch \<Rightarrow>
                   let call = channel_send_args ch message in
                   (case send call of
                      None \<Rightarrow> returns g (pre @ [Get_stoat_channels stoat_id, Channel_send call])
                    | Some e \<Rightarrow>
                        if is_Exception e
                        then returns g (pre @ [Get_stoat_channels stoat_id, Channel_send call,
                                               Log ERROR (Discord_to_Stoat_failed stoat_id e)])
                        else raises g (pre @ [Get_stoat_channels stoat_id, Channel_send call]) e)))"

subsection \<open>Reading a trace\<close>

fun is_send :: "effect \<Rightarrow> bool" where
  "is_send (Webhook_send _) = True"
| "is_send (Channel_send _) = True"
| "is_send _ = False"

fun is_log :: "level \<Rightarrow> effect \<Rightarrow> bool" where
  "is_log l (Log l' _) = (l = l')"
| "is_log l _ = False"

fun reads_discord_webhooks :: "effect \<Rightarrow> bool" where
  "reads_discord_webhooks (Get_discord_webhooks _) = True"
| "reads_discord_webhooks Values_discord_webhooks = True"
| "reads_discord_webhooks _ = False"

fun reads_stoat_channels :: "effect \<Rightarrow> bool" where
  "reads_stoat_channels (Get_stoat_channels _) = True"
| "reads_stoat_channels _ = False"

definition sends :: "outcome \<Rightarrow> effect list" where
  "sends r = filter is_send (effects r)"

definition logged :: "level \<Rightarrow> outcome \<Rightarrow> effect list" where
  "logged l r = filter (is_log l) (effects r)"

subsection \<open>A running bridge, for concrete evaluation\<close>

text \<open>
  One pair, Discord channel 111 with Stoat channel \<open>"a"\<close>, both send targets
  registered; the Discord webhook has identifier 900.
\<close>

definition ex_globals :: globals where
  "ex_globals =
     \<lparr> PAIR_COUNT = 1,
       STOAT_TO_DISCORD = [([97], 111)],
       DISCORD_TO_STOAT = [(111, [97])],
       discord_webhooks = [(111, \<lparr> wh_id = 900, wh_name = [83] \<rparr>)],
       stoat_channels = [([97], \<lparr> ch_id = [97], ch_name = [99] \<rparr>)] \<rparr>"

definition ex_StoatBot :: StoatBot where
  "ex_StoatBot = \<lparr> me_id = [98, 111, 116] \<rparr>"

definition ex_DiscordBot :: DiscordBot where
  "ex_DiscordBot = \<lparr> user_id = 42 \<rparr>"

definition ex_stoat_user :: stoat_user where
  "ex_stoat_user = \<lparr> su_display_name = None, su_name = replicate 100 110, su_avatar = None \<rparr>"

definition ex_stoat_message :: "str \<Rightarrow> str \<Rightarrow> str \<Rightarrow> stoat_message" where
  "ex_stoat_message author channel content =
     \<lparr> sm_author_id = author, sm_channel_id = channel, sm_content = content,
       sm_author = ex_stoat_user \<rparr>"

definition ex_discord_user :: "int \<Rightarrow> discord_user" where
  "ex_discord_user uid =
     \<lparr> du_id = uid, du_display_name = replicate 40 110, du_avatar = None,
       du_default_avatar = [100, 101, 102] \<rparr>"

definition ex_discord_message :: "int option \<Rightarrow> int \<Rightarrow> int \<Rightarrow> str \<Rightarrow> discord_message" where
  "ex_discord_message wid uid channel content =
     \<lparr> dm_webhook_id = wid, dm_channel_id = channel, dm_content = content,
       dm_author = ex_discord_user uid \<rparr>"

text \<open>Two outbound transports: one that always returns, one that always raises.\<close>

definition send_returns :: "'call \<Rightarrow> py_raise option" where
  "send_returns call = None"

definition send_raises :: "'call \<Rightarrow> py_raise option" where
  "send_raises call = Some (PyException [116, 105, 109, 101, 111, 117, 116])"

section \<open>Properties of the pair table\<close>

lemma map_of_rev_zip_absent:
  "k \<notin> set xs \<Longrightarrow> map_of (rev (zip xs ys)) k = None"
  by (auto simp: map_of_eq_None_iff dest: set_zip_leftD)

text \<open>In a zip read from the back, a key is bound to the value at its last position.\<close>

lemma map_of_rev_zip_last:
  assumes "length xs = length ys" "j < length xs"
    and "\<forall>j'. j < j' \<and> j' < length xs \<longrightarrow> xs ! j' \<noteq> xs ! j"
  shows "map_of (rev (zip xs ys)) (xs ! j) = Some (ys ! j)"
  using assms
proof (induction xs ys arbitrary: j rule: list_induct2)
  case Nil
  then show ?case by simp
next
  case (Cons x xs y ys)
  show ?case
  proof (cases j)
    case 0
    have "x \<notin> set xs"
    proof
      assume "x \<in> set xs"
      then obtain i where "i < length xs" "xs ! i = x" by (auto simp: in_set_conv_nth)
      with Cons.prems(2) 0 show False by (auto dest: spec [of _ "Suc i"])
    qed
    then have "map_of (rev (zip xs ys)) x = None" by (rule map_of_rev_zip_absent)
    with 0 show ?thesis by (simp add: map_add_def)
  next
    case (Suc k)
    have "\<forall>j'. k < j' \<and> j' < length xs \<longrightarrow> xs ! j' \<noteq> xs ! k"
      using Cons.prems(2) Suc by (auto dest: spec [of _ "Suc _"])
    with Cons.IH [of k] Cons.prems(1) Suc
    show ?thesis by (simp add: map_add_def)
  qed
qed

lemma map_of_rev_zip_distinct:
  assumes "length xs = length ys" "distinct xs" "i < length xs"
  shows "map_of (rev (zip xs ys)) (xs ! i) = Some (ys ! i)"
proof (rule map_of_rev_zip_last [OF assms(1) assms(3)])
  show "\<forall>j'. i < j' \<and> j' < length xs \<longrightarrow> xs ! j' \<noteq> xs ! i"
    using assms(2,3) by (auto simp: nth_eq_iff_index_eq)
qed

text \<open>The dict comprehensions, read through \<open>dict_get\<close>.\<close>

lemma dict_get_foldl_D2S:
  "dict_get (foldl (\<lambda>m (d, s). dict_set d s m) acc ps) k =
     (case map_of (rev ps) k of Some v \<Rightarrow> Some v | None \<Rightarrow> dict_get acc k)"
proof (induction ps arbitrary: acc)
  case Nil
  then show ?case by (simp add: dict_get_def)
next
  case (Cons p ps)
  then show ?case
    by (cases p) (simp add: dict_get_def dict_set_def update_conv' map_add_def split: option.splits)
qed

lemma dict_get_foldl_S2D:
  "dict_get (foldl (\<lambda>m (d, s). dict_set s d m) acc ps) k =
     (case map_of (rev (map prod.swap ps)) k of Some v \<Rightarrow> Some v | None \<Rightarrow> dict_get acc k)"
proof (induction ps arbitrary: acc)
  case Nil
  then show ?case by (simp add: dict_get_def)
next
  case (Cons p ps)
  then show ?case
    by (cases p) (simp add: dict_get_def dict_set_def update_conv' map_add_def split: option.splits)
qed

lemma swap_zip: "map prod.swap (zip xs ys) = zip ys xs"
  by (induction xs ys rule: list_induct2') simp_all

lemma get_DISCORD_TO_STOAT:
  "dict_get (build_DISCORD_TO_STOAT ds ss) k = map_of (rev (zip ds ss)) k"
  by (simp add: build_DISCORD_TO_STOAT_def dict_get_foldl_D2S)
     (simp add: dict_get_def split: option.splits)

lemma get_STOAT_TO_DISCORD:
  "dict_get (build_STOAT_TO_DISCORD ds ss) k = map_of (rev (zip ss ds)) k"
  by (simp add: build_STOAT_TO_DISCORD_def dict_get_foldl_S2D swap_zip)
     (simp add: dict_get_def split: option.splits)

lemma module_init_Inr:
  "length ds = length ss \<Longrightarrow>
   module_init ds ss =
     Inr \<lparr> PAIR_COUNT = length ds,
           STOAT_TO_DISCORD = build_STOAT_TO_DISCORD ds ss,
           DISCORD_TO_STOAT = build_DISCORD_TO_STOAT ds ss,
           discord_webhooks = [], stoat_channels = [] \<rparr>"
  by (simp add: module_init_def)

text \<open>
  C1 (as amended).  For equal-length lists the module initialises, and: when the Discord
  list has no duplicate, the i-th Discord identifier resolves to the i-th Stoat
  identifier; when the Stoat list has no duplicate, the i-th Stoat identifier resolves
  to the i-th Discord identifier; an identifier that is not on the queried side resolves
  to \<open>None\<close>.
\<close>

theorem C1_pair_table_resolves:
  assumes "length ds = length ss"
  shows "\<exists>g. module_init ds ss = Inr g \<and>
           (distinct ds \<longrightarrow> (\<forall>i<length ds. dict_get (DISCORD_TO_STOAT g) (ds ! i) = Some (ss ! i))) \<and>
           (distinct ss \<longrightarrow> (\<forall>i<length ss. dict_get (STOAT_TO_DISCORD g) (ss ! i) = Some (ds ! i))) \<and>
           (\<forall>d. d \<notin> set ds \<longrightarrow> dict_get (DISCORD_TO_STOAT g) d = None) \<and>
           (\<forall>s. s \<notin> set ss \<longrightarrow> dict_get (STOAT_TO_DISCORD g) s = None)"
proof -
  have a: "distinct ds \<longrightarrow> (\<forall>i<length ds. map_of (rev (zip ds ss)) (ds ! i) = Some (ss ! i))"
    using assms by (auto intro: map_of_rev_zip_distinct)
  have b: "distinct ss \<longrightarrow> (\<forall>i<length ss. map_of (rev (zip ss ds)) (ss ! i) = Some (ds ! i))"
    using assms by (auto intro: map_of_rev_zip_distinct)
  show ?thesis
    using a b by (simp add: module_init_Inr [OF assms] get_DISCORD_TO_STOAT
        get_STOAT_TO_DISCORD map_of_rev_zip_absent)
qed

theorem C1_pair_table_resolves_witness:
  "dict_get (DISCORD_TO_STOAT (projr (module_init [111, 222] [[97], [98]]))) 222 = Some [98] \<and>
   dict_get (STOAT_TO_DISCORD (projr (module_init [111, 222] [[97], [98]]))) [97] = Some 111 \<and>
   dict_get (DISCORD_TO_STOAT (projr (module_init [111, 222] [[97], [98]]))) 333 = None \<and>
   dict_get (STOAT_TO_DISCORD (projr (module_init [111, 222] [[97], [98]]))) [99] = None"
proof -
  have len: "length [111, 222 :: int] = length [[97], [98 :: nat]]" by simp
  from C1_pair_table_resolves [OF len] obtain g where
    g: "module_init [111, 222] [[97], [98]] = Inr g"
    and a: "distinct [111, 222 :: int] \<longrightarrow>
            (\<forall>i<length [111, 222 :: int]. dict_get (DISCORD_TO_STOAT g) ([111, 222] ! i) = Some ([[97], [98]] ! i))"
    and b: "distinct [[97], [98 :: nat]] \<longrightarrow>
            (\<forall>i<length [[97], [98 :: nat]]. dict_get (STOAT_TO_DISCORD g) ([[97], [98]] ! i) = Some ([111, 222] ! i))"
    and c: "\<forall>d. d \<notin> set [111, 222] \<longrightarrow> dict_get (DISCORD_TO_STOAT g) d = None"
    and d: "\<forall>s. s \<notin> set [[97], [98]] \<longrightarrow> dict_get (STOAT_TO_DISCORD g) s = None"
    by blast
  have "dict_get (DISCORD_TO_STOAT g) ([111, 222] ! 1) = Some ([[97], [98]] ! 1)"
    using a [rule_format, of 1] by simp
  moreover have "dict_get (STOAT_TO_DISCORD g) ([[97], [98]] ! 0) = Some ([111, 222] ! 0)"
    using b [rule_format, of 0] by simp
  moreover have "dict_get (DISCORD_TO_STOAT g) 333 = None"
    using c [rule_format, of 333] by simp
  moreover have "dict_get (STOAT_TO_DISCORD g) [99] = None"
    using d [rule_format, of "[99]"] by simp
  ultimately show ?thesis using g by simp
qed

text \<open>
  C1 (as stated) fails when an identifier is repeated: with Discord list \<open>[1, 1]\<close> and
  Stoat list \<open>["a", "b"]\<close> the module initialises, and the Discord identifier at
  position 0 resolves to \<open>"b"\<close>, the Stoat identifier at position 1.
\<close>

theorem C1_counterexample:
  "length [1 :: int, 1] = length [[97], [98 :: nat]] \<and>
   \<not> isl (module_init [1, 1] [[97], [98]]) \<and>
   dict_get (DISCORD_TO_STOAT (projr (module_init [1, 1] [[97], [98]]))) ([1, 1] ! 0)
     \<noteq> Some ([[97], [98]] ! 0)"
  by (simp add: module_init_def build_DISCORD_TO_STOAT_def dict_set_def dict_get_def)

text \<open>
  C5.  When the two lists differ in length the module raises its \<open>RuntimeError\<close>
  (carrying the two lengths), and there is no table: the result is never a \<open>globals\<close>.
\<close>

theorem C5_length_mismatch_fails:
  assumes "length ds \<noteq> length ss"
  shows "module_init ds ss = Inl (RuntimeError (length ds) (length ss)) \<and>
         (\<forall>g. module_init ds ss \<noteq> Inr g)"
  using assms by (simp add: module_init_def)

theorem C5_length_mismatch_fails_witness:
  "module_init [111, 222, 333] [[97], [98]] = Inl (RuntimeError 3 2)"
proof -
  have "length [111, 222, 333 :: int] \<noteq> length [[97], [98 :: nat]]" by simp
  from C5_length_mismatch_fails [OF this] show ?thesis by simp
qed

text \<open>
  C10.  Equal-length lists with repeated identifiers still initialise the module, and in
  each direction an identifier is bound to the partner at the last position where the
  identifier occurs.
\<close>

theorem C10_last_occurrence_wins:
  assumes "length ds = length ss" and "j < length ds"
  shows "\<exists>g. module_init ds ss = Inr g \<and>
           ((\<forall>j'. j < j' \<and> j' < length ds \<longrightarrow> ds ! j' \<noteq> ds ! j) \<longrightarrow>
              dict_get (DISCORD_TO_STOAT g) (ds ! j) = Some (ss ! j)) \<and>
           ((\<forall>j'. j < j' \<and> j' < length ss \<longrightarrow> ss ! j' \<noteq> ss ! j) \<longrightarrow>
              dict_get (STOAT_TO_DISCORD g) (ss ! j) = Some (ds ! j))"
proof -
  have a: "(\<forall>j'. j < j' \<and> j' < length ds \<longrightarrow> ds ! j' \<noteq> ds ! j) \<longrightarrow>
           map_of (rev (zip ds ss)) (ds ! j) = Some (ss ! j)"
    using assms by (auto intro: map_of_rev_zip_last)
  have b: "(\<forall>j'. j < j' \<and> j' < length ss \<longrightarrow> ss ! j' \<noteq> ss ! j) \<longrightarrow>
           map_of (rev (zip ss ds)) (ss ! j) = Some (ds ! j)"
    using assms by (auto intro: map_of_rev_zip_last)
  show ?thesis
    using a b by (simp add: module_init_Inr [OF assms(1)] get_DISCORD_TO_STOAT get_STOAT_TO_DISCORD)
qed

theorem C10_last_occurrence_wins_witness:
  "\<not> isl (module_init [5, 5, 6] [[97], [98], [98]]) \<and>
   dict_get (DISCORD_TO_STOAT (projr (module_init [5, 5, 6] [[97], [98], [98]]))) 5 = Some [98] \<and>
   dict_get (STOAT_TO_DISCORD (projr (module_init [5, 5, 6] [[97], [98], [98]]))) [98] = Some 6"
proof -
  have len: "length [5, 5, 6 :: int] = length [[97], [98], [98 :: nat]]" by simp
  have j1: "(1 :: nat) < length [5, 5, 6 :: int]" and j2: "(2 :: nat) < length [5, 5, 6 :: int]"
    by simp_all
  have last1: "\<forall>j'. 1 < j' \<and> j' < length [5, 5, 6 :: int] \<longrightarrow> [5, 5, 6 :: int] ! j' \<noteq> [5, 5, 6] ! 1"
    by (auto simp: less_Suc_eq numeral_3_eq_3)
  have last2: "\<forall>j'. 2 < j' \<and> j' < length [[97], [98], [98 :: nat]] \<longrightarrow>
                 [[97], [98], [98 :: nat]] ! j' \<noteq> [[97], [98], [98]] ! 2"
    by auto
  from C10_last_occurrence_wins [OF len j1] last1 obtain g where
    g: "module_init [5, 5, 6] [[97], [98], [98]] = Inr g"
    and a: "dict_get (DISCORD_TO_STOAT g) ([5, 5, 6] ! 1) = Some ([[97], [98], [98]] ! 1)"
    by blast
  from C10_last_occurrence_wins [OF len j2] last2 obtain g' where
    g': "module_init [5, 5, 6] [[97], [98], [98]] = Inr g'"
    and b: "dict_get (STOAT_TO_DISCORD g') ([[97], [98], [98]] ! 2) = Some ([5, 5, 6] ! 2)"
    by blast
  from g g' have "g' = g" by simp
  with a b g show ?thesis by simp
qed


section \<open>Properties of the relay handlers\<close>

lemma ex_globals_from_module_init:
  "module_init [111] [[97]] = Inr (ex_globals \<lparr> discord_webhooks := [], stoat_channels := [] \<rparr>)"
  by (simp add: module_init_def build_STOAT_TO_DISCORD_def build_DISCORD_TO_STOAT_def
      dict_set_def ex_globals_def)

text \<open>The handlers on the path that reaches the outbound call.\<close>

lemma on_message_create_forward:
  assumes "sm_author_id msg \<noteq> me_id self"
    and "dict_get (STOAT_TO_DISCORD g) (sm_channel_id msg) = Some d"
    and "sm_content msg \<noteq> []"
    and "dict_get (discord_webhooks g) d = Some wh"
  shows "on_message_create self g send msg =
           (case send (webhook_send_args wh msg) of
              None \<Rightarrow> returns g [Get_discord_webhooks d, Webhook_send (webhook_send_args wh msg)]
            | Some e \<Rightarrow>
                if is_Exception e
                then returns g [Get_discord_webhooks d, Webhook_send (webhook_send_args wh msg),
                                Log ERROR (Stoat_to_Discord_failed d e)]
                else raises g [Get_discord_webhooks d, Webhook_send (webhook_send_args wh msg)] e)"
  using assms by (simp add: on_message_create_def Let_def)

lemma on_message_forward:
  assumes "\<not> own_webhook g message"
    and "dict_get (DISCORD_TO_STOAT g) (dm_channel_id message) = Some s"
    and "dm_content message \<noteq> []"
    and "dict_get (stoat_channels g) s = Some ch"
  shows "on_message self g send message =
           (let pre = (if webhook_id_truthy message then [Values_discord_webhooks] else []) in
            case send (channel_send_args ch message) of
              None \<Rightarrow> returns g (pre @ [Get_stoat_channels s, Channel_send (channel_send_args ch message)])
            | Some e \<Rightarrow>
                if is_Exception e
                then returns g (pre @ [Get_stoat_channels s, Channel_send (channel_send_args ch message),
                                       Log ERROR (Discord_to_Stoat_failed s e)])
                else raises g (pre @ [Get_stoat_channels s, Channel_send (channel_send_args ch message)]) e)"
  using assms by (simp add: on_message_def Let_def)

lemma sends_on_message_create_forward:
  assumes "sm_author_id msg \<noteq> me_id self"
    and "dict_get (STOAT_TO_DISCORD g) (sm_channel_id msg) = Some d"
    and "sm_content msg \<noteq> []"
    and "dict_get (discord_webhooks g) d = Some wh"
  shows "sends (on_message_create self g send msg) = [Webhook_send (webhook_send_args wh msg)]"
  by (simp add: on_message_create_forward [OF assms] sends_def returns_def raises_def
      split: option.splits)

lemma sends_on_message_forward:
  assumes "\<not> own_webhook g message"
    and "dict_get (DISCORD_TO_STOAT g) (dm_channel_id message) = Some s"
    and "dm_content message \<noteq> []"
    and "dict_get (stoat_channels g) s = Some ch"
  shows "sends (on_message self g send message) = [Channel_send (channel_send_args ch message)]"
  by (simp add: on_message_forward [OF assms] sends_def returns_def raises_def Let_def
      split: option.splits)

text \<open>Neither handler assigns to a module-level name.\<close>

lemma globals_after_on_message_create: "globals_after (on_message_create self g send msg) = g"
  by (simp add: on_message_create_def returns_def raises_def Let_def split: option.splits)

lemma globals_after_on_message: "globals_after (on_message self g send message) = g"
  by (simp add: on_message_def returns_def raises_def Let_def split: option.splits)

text \<open>
  C2 (as amended).  A Stoat message whose author is the Stoat bot itself is dropped by
  \<open>on_message_create\<close> before anything else happens: no outbound send call, no registry
  read, no log record, whatever its channel and content.
\<close>

theorem C2_stoat_own_message_dropped:
  assumes "sm_author_id msg = me_id self"
  shows "sends (on_message_create self g send msg) = [] \<and>
         on_message_create self g send msg = returns g []"
  using assms by (simp add: on_message_create_def sends_def returns_def)

theorem C2_stoat_own_message_dropped_witness:
  "sends (on_message_create ex_StoatBot ex_globals send_returns
            (ex_stoat_message [98, 111, 116] [97] [104, 105])) = []"
proof -
  have "sm_author_id (ex_stoat_message [98, 111, 116] [97] [104, 105]) = me_id ex_StoatBot"
    by (simp add: ex_stoat_message_def ex_StoatBot_def)
  from C2_stoat_own_message_dropped [OF this] show ?thesis by (rule conjunct1)
qed

text \<open>
  C2 (as stated) fails on the Discord side: \<open>on_message\<close> never compares the author with
  the bot's own user.  A message written by the bot's own user (identifier 42), sent
  through no webhook, on the configured channel 111, is forwarded.
\<close>

theorem C2_counterexample:
  "du_id (dm_author (ex_discord_message None 42 111 [104, 105])) = user_id ex_DiscordBot \<and>
   sends (on_message ex_DiscordBot ex_globals send_returns (ex_discord_message None 42 111 [104, 105])) =
     [Channel_send (channel_send_args \<lparr> ch_id = [97], ch_name = [99] \<rparr>
                      (ex_discord_message None 42 111 [104, 105]))]"
  by (simp add: on_message_def own_webhook_def webhook_id_truthy_def ex_discord_message_def
      ex_discord_user_def ex_DiscordBot_def ex_globals_def dict_get_def send_returns_def
      sends_def returns_def Let_def)

text \<open>
  C3.  A Discord message that comes from one of the bridge's own webhooks, that is,
  whose webhook identifier is the identifier of a webhook in \<open>discord_webhooks\<close>, is
  dropped: the handler reads the webhook registry and returns, with no outbound send
  call.  A webhook identifier is a Discord snowflake, which is never 0; that is the
  second premise, and it is what makes \<open>message.webhook_id\<close> truthy in the guard.
\<close>

theorem C3_own_webhook_message_dropped:
  assumes "dm_webhook_id message = Some w"
    and "w \<noteq> 0"
    and "w \<in> set (map wh_id (dict_values (discord_webhooks g)))"
  shows "sends (on_message self g send message) = [] \<and>
         on_message self g send message = returns g [Values_discord_webhooks]"
  using assms
  by (simp add: on_message_def own_webhook_def webhook_id_truthy_def sends_def returns_def)

theorem C3_own_webhook_message_dropped_witness:
  "sends (on_message ex_DiscordBot ex_globals send_returns
            (ex_discord_message (Some 900) 7 111 [104, 105])) = []"
proof -
  have a: "dm_webhook_id (ex_discord_message (Some 900) 7 111 [104, 105]) = Some 900"
    by (simp add: ex_discord_message_def)
  have b: "(900 :: int) \<noteq> 0" by simp
  have c: "900 \<in> set (map wh_id (dict_values (discord_webhooks ex_globals)))"
    by (simp add: ex_globals_def dict_values_def)
  from C3_own_webhook_message_dropped [OF a b c] show ?thesis by (rule conjunct1)
qed

text \<open>
  C4 (as amended).  A message that passes the filters of its handler (on Stoat: not
  written by the bot itself; on Discord: not from one of the bridge's webhooks; on both:
  non-empty content), on a configured pair whose send target is registered, causes
  exactly one outbound send call, to that target.  Its content is the first 2000
  characters of the original content, hence the original content when that has at most
  2000 characters; its name override is the first 80 characters of the author name
  (\<open>display_name or name\<close>) from Stoat to Discord and the first 32 characters of the
  display name from Discord to Stoat.
\<close>

theorem C4_forward_truncates:
  "(sm_author_id msg \<noteq> me_id sbot \<longrightarrow>
    dict_get (STOAT_TO_DISCORD g) (sm_channel_id msg) = Some d \<longrightarrow>
    sm_content msg \<noteq> [] \<longrightarrow>
    dict_get (discord_webhooks g) d = Some wh \<longrightarrow>
      (\<exists>call. sends (on_message_create sbot g wsend msg) = [Webhook_send call] \<and>
         ws_target call = wh \<and>
         ws_content call = take 2000 (sm_content msg) \<and>
         (length (sm_content msg) \<le> 2000 \<longrightarrow> ws_content call = sm_content msg) \<and>
         ws_username call =
           take 80 (py_or (su_display_name (sm_author msg)) (su_name (sm_author msg))))) \<and>
   (\<not> own_webhook g message \<longrightarrow>
    dict_get (DISCORD_TO_STOAT g) (dm_channel_id message) = Some s \<longrightarrow>
    dm_content message \<noteq> [] \<longrightarrow>
    dict_get (stoat_channels g) s = Some ch \<longrightarrow>
      (\<exists>call. sends (on_message dbot g csend message) = [Channel_send call] \<and>
         cs_target call = ch \<and>
         cs_content call = take 2000 (dm_content message) \<and>
         (length (dm_content message) \<le> 2000 \<longrightarrow> cs_content call = dm_content message) \<and>
         mq_name (cs_masquerade call) = take 32 (du_display_name (dm_author message))))"
proof (intro conjI impI)
  assume a: "sm_author_id msg \<noteq> me_id sbot"
    "dict_get (STOAT_TO_DISCORD g) (sm_channel_id msg) = Some d"
    "sm_content msg \<noteq> []" "dict_get (discord_webhooks g) d = Some wh"
  have "sends (on_message_create sbot g wsend msg) = [Webhook_send (webhook_send_args wh msg)]"
    using a by (rule sends_on_message_create_forward)
  then show "\<exists>call. sends (on_message_create sbot g wsend msg) = [Webhook_send call] \<and>
         ws_target call = wh \<and>
         ws_content call = take 2000 (sm_content msg) \<and>
         (length (sm_content msg) \<le> 2000 \<longrightarrow> ws_content call = sm_content msg) \<and>
         ws_username call =
           take 80 (py_or (su_display_name (sm_author msg)) (su_name (sm_author msg)))"
    by (simp add: webhook_send_args_def Let_def)
next
  assume a: "\<not> own_webhook g message"
    "dict_get (DISCORD_TO_STOAT g) (dm_channel_id message) = Some s"
    "dm_content message \<noteq> []" "dict_get (stoat_channels g) s = Some ch"
  have "sends (on_message dbot g csend message) = [Channel_send (channel_send_args ch message)]"
    using a by (rule sends_on_message_forward)
  then show "\<exists>call. sends (on_message dbot g csend message) = [Channel_send call] \<and>
         cs_target call = ch \<and>
         cs_content call = take 2000 (dm_content message) \<and>
         (length (dm_content message) \<le> 2000 \<longrightarrow> cs_content call = dm_content message) \<and>
         mq_name (cs_masquerade call) = take 32 (du_display_name (dm_author message))"
    by (simp add: channel_send_args_def Let_def)
qed

theorem C4_forward_truncates_witness:
  "(\<exists>call. sends (on_message_create ex_StoatBot ex_globals send_returns
                     (ex_stoat_message [117] [97] (replicate 3000 120))) = [Webhook_send call] \<and>
      ws_content call = replicate 2000 120 \<and> ws_username call = replicate 80 110) \<and>
   (\<exists>call. sends (on_message_create ex_StoatBot ex_globals send_returns
                     (ex_stoat_message [117] [97] [104, 105])) = [Webhook_send call] \<and>
      ws_content call = [104, 105]) \<and>
   (\<exists>call. sends (on_message ex_DiscordBot ex_globals send_returns
                     (ex_discord_message None 7 111 (replicate 3000 120))) = [Channel_send call] \<and>
      cs_content call = replicate 2000 120 \<and> mq_name (cs_masquerade call) = replicate 32 110) \<and>
   (\<exists>call. sends (on_message ex_DiscordBot ex_globals send_returns
                     (ex_discord_message None 7 111 [104, 105])) = [Channel_send call] \<and>
      cs_content call = [104, 105])"
proof -
  let ?wh = "\<lparr> wh_id = 900, wh_name = [83] \<rparr>"
  let ?ch = "\<lparr> ch_id = [97], ch_name = [99] \<rparr>"
  let ?long = "replicate 3000 (120 :: nat)"
  let ?short = "[104, 105 :: nat]"
  have s: "sm_author_id (ex_stoat_message [117] [97] c) \<noteq> me_id ex_StoatBot"
    "dict_get (STOAT_TO_DISCORD ex_globals) (sm_channel_id (ex_stoat_message [117] [97] c)) = Some 111"
    "dict_get (discord_webhooks ex_globals) 111 = Some ?wh" for c
    by (simp_all add: ex_stoat_message_def ex_StoatBot_def ex_globals_def dict_get_def)
  have d: "\<not> own_webhook ex_globals (ex_discord_message None 7 111 c)"
    "dict_get (DISCORD_TO_STOAT ex_globals) (dm_channel_id (ex_discord_message None 7 111 c)) = Some [97]"
    "dict_get (stoat_channels ex_globals) [97] = Some ?ch" for c
    by (simp_all add: ex_discord_message_def own_webhook_def ex_globals_def dict_get_def)
  have ne: "sm_content (ex_stoat_message [117] [97] ?long) \<noteq> []"
    "sm_content (ex_stoat_message [117] [97] ?short) \<noteq> []"
    "dm_content (ex_discord_message None 7 111 ?long) \<noteq> []"
    "dm_content (ex_discord_message None 7 111 ?short) \<noteq> []"
    by (simp_all add: ex_stoat_message_def ex_discord_message_def)
  have le: "length (sm_content (ex_stoat_message [117] [97] ?short)) \<le> 2000"
    "length (dm_content (ex_discord_message None 7 111 ?short)) \<le> 2000"
    by (simp_all add: ex_stoat_message_def ex_discord_message_def)
  obtain c1 where
    c1: "sends (on_message_create ex_StoatBot ex_globals send_returns
                  (ex_stoat_message [117] [97] ?long)) = [Webhook_send c1]"
      "ws_content c1 = take 2000 (sm_content (ex_stoat_message [117] [97] ?long))"
      "ws_username c1 =
         take 80 (py_or (su_display_name (sm_author (ex_stoat_message [117] [97] ?long)))
                        (su_name (sm_author (ex_stoat_message [117] [97] ?long))))"
    using C4_forward_truncates [where msg = "ex_stoat_message [117] [97] ?long"
        and sbot = ex_StoatBot and g = ex_globals and d = 111 and wh = ?wh
        and wsend = send_returns] s ne(1)
    by blast
  obtain c2 where
    c2: "sends (on_message_create ex_StoatBot ex_globals send_returns
                  (ex_stoat_message [117] [97] ?short)) = [Webhook_send c2]"
      "ws_content c2 = sm_content (ex_stoat_message [117] [97] ?short)"
    using C4_forward_truncates [where msg = "ex_stoat_message [117] [97] ?short"
        and sbot = ex_StoatBot and g = ex_globals and d = 111 and wh = ?wh
        and wsend = send_returns] s ne(2) le(1)
    by blast
  obtain c3 where
    c3: "sends (on_message ex_DiscordBot ex_globals send_returns
                  (ex_discord_message None 7 111 ?long)) = [Channel_send c3]"
      "cs_content c3 = take 2000 (dm_content (ex_discord_message None 7 111 ?long))"
      "mq_name (cs_masquerade c3) =
         take 32 (du_display_name (dm_author (ex_discord_message None 7 111 ?long)))"
    using C4_forward_truncates [where message = "ex_discord_message None 7 111 ?long"
        and dbot = ex_DiscordBot and g = ex_globals and s = "[97]" and ch = ?ch
        and csend = send_returns] d ne(3)
    by blast
  obtain c4 where
    c4: "sends (on_message ex_DiscordBot ex_globals send_returns
                  (ex_discord_message None 7 111 ?short)) = [Channel_send c4]"
      "cs_content c4 = dm_content (ex_discord_message None 7 111 ?short)"
    using C4_forward_truncates [where message = "ex_discord_message None 7 111 ?short"
        and dbot = ex_DiscordBot and g = ex_globals and s = "[97]" and ch = ?ch
        and csend = send_returns] d ne(4) le(2)
    by blast
  have "ws_content c1 = replicate 2000 120" "ws_username c1 = replicate 80 110"
    using c1(2,3) by (simp_all add: ex_stoat_message_def ex_stoat_user_def)
  moreover have "ws_content c2 = [104, 105]"
    using c2(2) by (simp add: ex_stoat_message_def)
  moreover have "cs_content c3 = replicate 2000 120" "mq_name (cs_masquerade c3) = replicate 32 110"
    using c3(2,3) by (simp_all add: ex_discord_message_def ex_discord_user_def)
  moreover have "cs_content c4 = [104, 105]"
    using c4(2) by (simp add: ex_discord_message_def)
  ultimately show ?thesis using c1(1) c2(1) c3(1) c4(1) by blast
qed

text \<open>
  C4 (as stated) fails for a message the filters drop: on the configured pair, with the
  webhook registered, a Stoat message with empty content causes no outbound send call.
\<close>

theorem C4_counterexample:
  "dict_get (STOAT_TO_DISCORD ex_globals) (sm_channel_id (ex_stoat_message [117] [97] [])) = Some 111 \<and>
   dict_get (discord_webhooks ex_globals) 111 = Some \<lparr> wh_id = 900, wh_name = [83] \<rparr> \<and>
   sends (on_message_create ex_StoatBot ex_globals send_returns (ex_stoat_message [117] [97] [])) = []"
  by (simp add: on_message_create_def ex_stoat_message_def ex_StoatBot_def ex_globals_def
      dict_get_def sends_def returns_def Let_def)

text \<open>
  C6.  A message that passes the filters of its handler and resolves to a destination
  whose send target is not in the registry: the handler logs exactly one warning (and
  nothing else), makes no outbound send call, and returns normally.
\<close>

theorem C6_not_ready_drop:
  "(sm_author_id msg \<noteq> me_id sbot \<longrightarrow>
    dict_get (STOAT_TO_DISCORD g) (sm_channel_id msg) = Some d \<longrightarrow>
    sm_content msg \<noteq> [] \<longrightarrow>
    dict_get (discord_webhooks g) d = None \<longrightarrow>
      logged WARNING (on_message_create sbot g wsend msg) =
        [Log WARNING (Stoat_to_Discord_not_ready d)] \<and>
      logged ERROR (on_message_create sbot g wsend msg) = [] \<and>
      sends (on_message_create sbot g wsend msg) = [] \<and>
      escaped (on_message_create sbot g wsend msg) = None) \<and>
   (\<not> own_webhook g message \<longrightarrow>
    dict_get (DISCORD_TO_STOAT g) (dm_channel_id message) = Some s \<longrightarrow>
    dm_content message \<noteq> [] \<longrightarrow>
    dict_get (stoat_channels g) s = None \<longrightarrow>
      logged WARNING (on_message dbot g csend message) =
        [Log WARNING (Discord_to_Stoat_not_ready s)] \<and>
      logged ERROR (on_message dbot g csend message) = [] \<and>
      sends (on_message dbot g csend message) = [] \<and>
      escaped (on_message dbot g csend message) = None)"
  by (simp add: on_message_create_def on_message_def logged_def sends_def returns_def Let_def)

theorem C6_not_ready_drop_witness:
  "length (logged WARNING (on_message_create ex_StoatBot (ex_globals \<lparr> discord_webhooks := [] \<rparr>)
             send_returns (ex_stoat_message [117] [97] [104, 105]))) = 1 \<and>
   sends (on_message_create ex_StoatBot (ex_globals \<lparr> discord_webhooks := [] \<rparr>)
            send_returns (ex_stoat_message [117] [97] [104, 105])) = [] \<and>
   length (logged WARNING (on_message ex_DiscordBot (ex_globals \<lparr> stoat_channels := [] \<rparr>)
             send_returns (ex_discord_message None 7 111 [104, 105]))) = 1 \<and>
   sends (on_message ex_DiscordBot (ex_globals \<lparr> stoat_channels := [] \<rparr>)
            send_returns (ex_discord_message None 7 111 [104, 105])) = []"
proof -
  let ?g1 = "ex_globals \<lparr> discord_webhooks := [] \<rparr>"
  let ?g2 = "ex_globals \<lparr> stoat_channels := [] \<rparr>"
  let ?m = "ex_stoat_message [117] [97] [104, 105]"
  let ?dm = "ex_discord_message None 7 111 [104, 105]"
  have s: "sm_author_id ?m \<noteq> me_id ex_StoatBot"
    "dict_get (STOAT_TO_DISCORD ?g1) (sm_channel_id ?m) = Some 111"
    "sm_content ?m \<noteq> []"
    "dict_get (discord_webhooks ?g1) 111 = None"
    by (simp_all add: ex_stoat_message_def ex_StoatBot_def ex_globals_def dict_get_def)
  have d: "\<not> own_webhook ?g2 ?dm"
    "dict_get (DISCORD_TO_STOAT ?g2) (dm_channel_id ?dm) = Some [97]"
    "dm_content ?dm \<noteq> []"
    "dict_get (stoat_channels ?g2) [97] = None"
    by (simp_all add: ex_discord_message_def own_webhook_def ex_globals_def dict_get_def)
  have "logged WARNING (on_message_create ex_StoatBot ?g1 send_returns ?m) =
          [Log WARNING (Stoat_to_Discord_not_ready 111)]"
    and "sends (on_message_create ex_StoatBot ?g1 send_returns ?m) = []"
    using C6_not_ready_drop [of ?m ex_StoatBot ?g1 111 send_returns] s by blast+
  moreover have "logged WARNING (on_message ex_DiscordBot ?g2 send_returns ?dm) =
          [Log WARNING (Discord_to_Stoat_not_ready [97])]"
    and "sends (on_message ex_DiscordBot ?g2 send_returns ?dm) = []"
    using C6_not_ready_drop [where g = ?g2 and message = ?dm and s = "[97]"
        and dbot = ex_DiscordBot and csend = send_returns] d by blast+
  ultimately show ?thesis by simp
qed

text \<open>
  C7.  When the outbound send call raises an \<open>Exception\<close>, the handler has issued that
  one call, logs exactly one error (naming the direction, the channel and the exception)
  directly after it, returns normally, and leaves the module state as it was; so both
  handlers answer every later event as if the failing one had not happened.
\<close>

theorem C7_send_failure_logged_and_swallowed:
  "(sm_author_id msg \<noteq> me_id sbot \<longrightarrow>
    dict_get (STOAT_TO_DISCORD g) (sm_channel_id msg) = Some d \<longrightarrow>
    sm_content msg \<noteq> [] \<longrightarrow>
    dict_get (discord_webhooks g) d = Some wh \<longrightarrow>
    wsend (webhook_send_args wh msg) = Some e \<longrightarrow>
    is_Exception e \<longrightarrow>
      effects (on_message_create sbot g wsend msg) =
        [Get_discord_webhooks d, Webhook_send (webhook_send_args wh msg),
         Log ERROR (Stoat_to_Discord_failed d e)] \<and>
      logged ERROR (on_message_create sbot g wsend msg) =
        [Log ERROR (Stoat_to_Discord_failed d e)] \<and>
      escaped (on_message_create sbot g wsend msg) = None \<and>
      globals_after (on_message_create sbot g wsend msg) = g \<and>
      (\<forall>sbot' wsend' msg'.
         on_message_create sbot' (globals_after (on_message_create sbot g wsend msg)) wsend' msg' =
         on_message_create sbot' g wsend' msg') \<and>
      (\<forall>dbot' csend' message'.
         on_message dbot' (globals_after (on_message_create sbot g wsend msg)) csend' message' =
         on_message dbot' g csend' message')) \<and>
   (\<not> own_webhook g message \<longrightarrow>
    dict_get (DISCORD_TO_STOAT g) (dm_channel_id message) = Some s \<longrightarrow>
    dm_content message \<noteq> [] \<longrightarrow>
    dict_get (stoat_channels g) s = Some ch \<longrightarrow>
    csend (channel_send_args ch message) = Some e' \<longrightarrow>
    is_Exception e' \<longrightarrow>
      sends (on_message dbot g csend message) = [Channel_send (channel_send_args ch message)] \<and>
      logged ERROR (on_message dbot g csend message) =
        [Log ERROR (Discord_to_Stoat_failed s e')] \<and>
      last (effects (on_message dbot g csend message)) = Log ERROR (Discord_to_Stoat_failed s e') \<and>
      escaped (on_message dbot g csend message) = None \<and>
      globals_after (on_message dbot g csend message) = g \<and>
      (\<forall>sbot' wsend' msg'.
         on_message_create sbot' (globals_after (on_message dbot g csend message)) wsend' msg' =
         on_message_create sbot' g wsend' msg') \<and>
      (\<forall>dbot' csend' message'.
         on_message dbot' (globals_after (on_message dbot g csend message)) csend' message' =
         on_message dbot' g csend' message'))"
proof (rule conjI; intro impI)
  assume a: "sm_author_id msg \<noteq> me_id sbot"
    "dict_get (STOAT_TO_DISCORD g) (sm_channel_id msg) = Some d"
    "sm_content msg \<noteq> []" "dict_get (discord_webhooks g) d = Some wh"
    and e: "wsend (webhook_send_args wh msg) = Some e" "is_Exception e"
  have r: "on_message_create sbot g wsend msg =
             returns g [Get_discord_webhooks d, Webhook_send (webhook_send_args wh msg),
                        Log ERROR (Stoat_to_Discord_failed d e)]"
    using e by (simp add: on_message_create_forward [OF a])
  show "effects (on_message_create sbot g wsend msg) =
        [Get_discord_webhooks d, Webhook_send (webhook_send_args wh msg),
         Log ERROR (Stoat_to_Discord_failed d e)] \<and>
      logged ERROR (on_message_create sbot g wsend msg) =
        [Log ERROR (Stoat_to_Discord_failed d e)] \<and>
      escaped (on_message_create sbot g wsend msg) = None \<and>
      globals_after (on_message_create sbot g wsend msg) = g \<and>
      (\<forall>sbot' wsend' msg'.
         on_message_create sbot' (globals_after (on_message_create sbot g wsend msg)) wsend' msg' =
         on_message_create sbot' g wsend' msg') \<and>
      (\<forall>dbot' csend' message'.
         on_message dbot' (globals_after (on_message_create sbot g wsend msg)) csend' message' =
         on_message dbot' g csend' message')"
    by (simp add: r returns_def logged_def)
next
  assume a: "\<not> own_webhook g message"
    "dict_get (DISCORD_TO_STOAT g) (dm_channel_id message) = Some s"
    "dm_content message \<noteq> []" "dict_get (stoat_channels g) s = Some ch"
    and e: "csend (channel_send_args ch message) = Some e'" "is_Exception e'"
  have r: "on_message dbot g csend message =
             returns g ((if webhook_id_truthy message then [Values_discord_webhooks] else []) @
                        [Get_stoat_channels s, Channel_send (channel_send_args ch message),
                         Log ERROR (Discord_to_Stoat_failed s e')])"
    using e by (simp add: on_message_forward [OF a] Let_def)
  show "sends (on_message dbot g csend message) = [Channel_send (channel_send_args ch message)] \<and>
      logged ERROR (on_message dbot g csend message) =
        [Log ERROR (Discord_to_Stoat_failed s e')] \<and>
      last (effects (on_message dbot g csend message)) = Log ERROR (Discord_to_Stoat_failed s e') \<and>
      escaped (on_message dbot g csend message) = None \<and>
      globals_after (on_message dbot g csend message) = g \<and>
      (\<forall>sbot' wsend' msg'.
         on_message_create sbot' (globals_after (on_message dbot g csend message)) wsend' msg' =
         on_message_create sbot' g wsend' msg') \<and>
      (\<forall>dbot' csend' message'.
         on_message dbot' (globals_after (on_message dbot g csend message)) csend' message' =
         on_message dbot' g csend' message')"
    by (simp add: r returns_def logged_def sends_def)
qed

theorem C7_send_failure_logged_and_swallowed_witness:
  "length (logged ERROR (on_message_create ex_StoatBot ex_globals send_raises
             (ex_stoat_message [117] [97] [104, 105]))) = 1 \<and>
   escaped (on_message_create ex_StoatBot ex_globals send_raises
              (ex_stoat_message [117] [97] [104, 105])) = None \<and>
   on_message_create ex_StoatBot
     (globals_after (on_message_create ex_StoatBot ex_globals send_raises
                       (ex_stoat_message [117] [97] [104, 105])))
     send_returns (ex_stoat_message [118] [97] [111, 107]) =
   on_message_create ex_StoatBot ex_globals send_returns (ex_stoat_message [118] [97] [111, 107]) \<and>
   length (logged ERROR (on_message ex_DiscordBot ex_globals send_raises
             (ex_discord_message None 7 111 [104, 105]))) = 1 \<and>
   escaped (on_message ex_DiscordBot ex_globals send_raises
              (ex_discord_message None 7 111 [104, 105])) = None \<and>
   on_message ex_DiscordBot
     (globals_after (on_message ex_DiscordBot ex_globals send_raises
                       (ex_discord_message None 7 111 [104, 105])))
     send_returns (ex_discord_message None 8 111 [111, 107]) =
   on_message ex_DiscordBot ex_globals send_returns (ex_discord_message None 8 111 [111, 107])"
proof -
  let ?m = "ex_stoat_message [117] [97] [104, 105]"
  let ?wh = "\<lparr> wh_id = 900, wh_name = [83] \<rparr>"
  let ?dm = "ex_discord_message None 7 111 [104, 105]"
  let ?ch = "\<lparr> ch_id = [97], ch_name = [99] \<rparr>"
  let ?e = "PyException [116, 105, 109, 101, 111, 117, 116]"
  have s: "sm_author_id ?m \<noteq> me_id ex_StoatBot"
    "dict_get (STOAT_TO_DISCORD ex_globals) (sm_channel_id ?m) = Some 111"
    "sm_content ?m \<noteq> []"
    "dict_get (discord_webhooks ex_globals) 111 = Some ?wh"
    "send_raises (webhook_send_args ?wh ?m) = Some ?e"
    "is_Exception ?e"
    by (simp_all add: ex_stoat_message_def ex_StoatBot_def ex_globals_def dict_get_def
        send_raises_def)
  have d: "\<not> own_webhook ex_globals ?dm"
    "dict_get (DISCORD_TO_STOAT ex_globals) (dm_channel_id ?dm) = Some [97]"
    "dm_content ?dm \<noteq> []"
    "dict_get (stoat_channels ex_globals) [97] = Some ?ch"
    "send_raises (channel_send_args ?ch ?dm) = Some ?e"
    by (simp_all add: ex_discord_message_def own_webhook_def ex_globals_def dict_get_def
        send_raises_def)
  have st: "logged ERROR (on_message_create ex_StoatBot ex_globals send_raises ?m) =
              [Log ERROR (Stoat_to_Discord_failed 111 ?e)]"
    "escaped (on_message_create ex_StoatBot ex_globals send_raises ?m) = None"
    "\<forall>sbot' wsend' msg'.
       on_message_create sbot' (globals_after (on_message_create ex_StoatBot ex_globals send_raises ?m))
         wsend' msg' = on_message_create sbot' ex_globals wsend' msg'"
    using C7_send_failure_logged_and_swallowed [where msg = ?m and sbot = ex_StoatBot
        and g = ex_globals and d = 111 and wh = ?wh and wsend = send_raises and e = ?e] s
    by blast+
  have di: "logged ERROR (on_message ex_DiscordBot ex_globals send_raises ?dm) =
              [Log ERROR (Discord_to_Stoat_failed [97] ?e)]"
    "escaped (on_message ex_DiscordBot ex_globals send_raises ?dm) = None"
    "\<forall>dbot' csend' message'.
       on_message dbot' (globals_after (on_message ex_DiscordBot ex_globals send_raises ?dm))
         csend' message' = on_message dbot' ex_globals csend' message'"
    using C7_send_failure_logged_and_swallowed [where message = ?dm and dbot = ex_DiscordBot
        and g = ex_globals and s = "[97]" and ch = ?ch and csend = send_raises and e' = ?e]
      d s(6)
    by blast+
  show ?thesis
    using st(1,2) di(1,2) st(3) [rule_format, of ex_StoatBot send_returns]
      di(3) [rule_format, of ex_DiscordBot send_returns]
    by simp
qed

text \<open>
  C8 (as amended).  On a forwarded message whose author has no avatar set: from Discord
  to Stoat the masquerade avatar of the outbound call is the URL of the author's default
  avatar; from Stoat to Discord the avatar override of the outbound call is \<open>None\<close>.
\<close>

theorem C8_avatar_when_author_has_none:
  "(\<not> own_webhook g message \<longrightarrow>
    dict_get (DISCORD_TO_STOAT g) (dm_channel_id message) = Some s \<longrightarrow>
    dm_content message \<noteq> [] \<longrightarrow>
    dict_get (stoat_channels g) s = Some ch \<longrightarrow>
    du_avatar (dm_author message) = None \<longrightarrow>
      (\<exists>call. sends (on_message dbot g csend message) = [Channel_send call] \<and>
         mq_avatar (cs_masquerade call) = du_default_avatar (dm_author message))) \<and>
   (sm_author_id msg \<noteq> me_id sbot \<longrightarrow>
    dict_get (STOAT_TO_DISCORD g) (sm_channel_id msg) = Some d \<longrightarrow>
    sm_content msg \<noteq> [] \<longrightarrow>
    dict_get (discord_webhooks g) d = Some wh \<longrightarrow>
    su_avatar (sm_author msg) = None \<longrightarrow>
      (\<exists>call. sends (on_message_create sbot g wsend msg) = [Webhook_send call] \<and>
         ws_avatar_url call = None))"
proof (rule conjI; intro impI)
  assume a: "\<not> own_webhook g message"
    "dict_get (DISCORD_TO_STOAT g) (dm_channel_id message) = Some s"
    "dm_content message \<noteq> []" "dict_get (stoat_channels g) s = Some ch"
    and n: "du_avatar (dm_author message) = None"
  have "sends (on_message dbot g csend message) = [Channel_send (channel_send_args ch message)]"
    using a by (rule sends_on_message_forward)
  then show "\<exists>call. sends (on_message dbot g csend message) = [Channel_send call] \<and>
         mq_avatar (cs_masquerade call) = du_default_avatar (dm_author message)"
    using n by (simp add: channel_send_args_def)
next
  assume a: "sm_author_id msg \<noteq> me_id sbot"
    "dict_get (STOAT_TO_DISCORD g) (sm_channel_id msg) = Some d"
    "sm_content msg \<noteq> []" "dict_get (discord_webhooks g) d = Some wh"
    and n: "su_avatar (sm_author msg) = None"
  have "sends (on_message_create sbot g wsend msg) = [Webhook_send (webhook_send_args wh msg)]"
    using a by (rule sends_on_message_create_forward)
  then show "\<exists>call. sends (on_message_create sbot g wsend msg) = [Webhook_send call] \<and>
         ws_avatar_url call = None"
    using n by (simp add: webhook_send_args_def Let_def)
qed

theorem C8_avatar_when_author_has_none_witness:
  "(\<exists>call. sends (on_message ex_DiscordBot ex_globals send_returns
                     (ex_discord_message None 7 111 [104, 105])) = [Channel_send call] \<and>
      mq_avatar (cs_masquerade call) = [100, 101, 102]) \<and>
   (\<exists>call. sends (on_message_create ex_StoatBot ex_globals send_returns
                     (ex_stoat_message [117] [97] [104, 105])) = [Webhook_send call] \<and>
      ws_avatar_url call = None)"
proof -
  let ?m = "ex_stoat_message [117] [97] [104, 105]"
  let ?wh = "\<lparr> wh_id = 900, wh_name = [83] \<rparr>"
  let ?dm = "ex_discord_message None 7 111 [104, 105]"
  let ?ch = "\<lparr> ch_id = [97], ch_name = [99] \<rparr>"
  have s: "sm_author_id ?m \<noteq> me_id ex_StoatBot"
    "dict_get (STOAT_TO_DISCORD ex_globals) (sm_channel_id ?m) = Some 111"
    "sm_content ?m \<noteq> []"
    "dict_get (discord_webhooks ex_globals) 111 = Some ?wh"
    "su_avatar (sm_author ?m) = None"
    by (simp_all add: ex_stoat_message_def ex_stoat_user_def ex_StoatBot_def ex_globals_def
        dict_get_def)
  have d: "\<not> own_webhook ex_globals ?dm"
    "dict_get (DISCORD_TO_STOAT ex_globals) (dm_channel_id ?dm) = Some [97]"
    "dm_content ?dm \<noteq> []"
    "dict_get (stoat_channels ex_globals) [97] = Some ?ch"
    "du_avatar (dm_author ?dm) = None"
    by (simp_all add: ex_discord_message_def ex_discord_user_def own_webhook_def ex_globals_def
        dict_get_def)
  have dd: "du_default_avatar (dm_author ?dm) = [100, 101, 102]"
    by (simp add: ex_discord_message_def ex_discord_user_def)
  have "\<exists>call. sends (on_message ex_DiscordBot ex_globals send_returns ?dm) = [Channel_send call] \<and>
          mq_avatar (cs_masquerade call) = du_default_avatar (dm_author ?dm)"
    using C8_avatar_when_author_has_none [where message = ?dm and dbot = ex_DiscordBot
        and g = ex_globals and s = "[97]" and ch = ?ch and csend = send_returns] d
    by blast
  moreover have "\<exists>call. sends (on_message_create ex_StoatBot ex_globals send_returns ?m) =
                    [Webhook_send call] \<and> ws_avatar_url call = None"
    using C8_avatar_when_author_has_none [where msg = ?m and sbot = ex_StoatBot
        and g = ex_globals and d = 111 and wh = ?wh and wsend = send_returns] s
    by blast
  ultimately show ?thesis by (simp add: dd)
qed

text \<open>
  C8 (as stated) fails from Stoat to Discord: for an author without avatar the handler
  passes \<open>avatar_url=None\<close> to \<open>webhook.send\<close>.
\<close>

theorem C8_counterexample:
  "su_avatar (sm_author (ex_stoat_message [117] [97] [104, 105])) = None \<and>
   sends (on_message_create ex_StoatBot ex_globals send_returns
            (ex_stoat_message [117] [97] [104, 105])) =
     [Webhook_send \<lparr> ws_target = \<lparr> wh_id = 900, wh_name = [83] \<rparr>,
                     ws_content = [104, 105],
                     ws_username = replicate 80 110,
                     ws_avatar_url = None,
                     ws_wait = True \<rparr>]"
  by (simp add: on_message_create_def webhook_send_args_def ex_stoat_message_def
      ex_stoat_user_def ex_StoatBot_def ex_globals_def dict_get_def send_returns_def
      sends_def returns_def Let_def)

text \<open>
  C9.  A message whose source channel has no entry in the pair table of its direction
  causes no outbound send call and no read of the destination registry
  (\<open>discord_webhooks\<close> for a Stoat message, \<open>stoat_channels\<close> for a Discord message), and
  the handler returns normally.
\<close>

theorem C9_unconfigured_channel_ignored:
  "(dict_get (STOAT_TO_DISCORD g) (sm_channel_id msg) = None \<longrightarrow>
      sends (on_message_create sbot g wsend msg) = [] \<and>
      filter reads_discord_webhooks (effects (on_message_create sbot g wsend msg)) = [] \<and>
      escaped (on_message_create sbot g wsend msg) = None) \<and>
   (dict_get (DISCORD_TO_STOAT g) (dm_channel_id message) = None \<longrightarrow>
      sends (on_message dbot g csend message) = [] \<and>
      filter reads_stoat_channels (effects (on_message dbot g csend message)) = [] \<and>
      escaped (on_message dbot g csend message) = None)"
  by (simp add: on_message_create_def on_message_def sends_def returns_def Let_def)

theorem C9_unconfigured_channel_ignored_witness:
  "sends (on_message_create ex_StoatBot ex_globals send_returns
            (ex_stoat_message [117] [122] [104, 105])) = [] \<and>
   filter reads_discord_webhooks
     (effects (on_message_create ex_StoatBot ex_globals send_returns
                 (ex_stoat_message [117] [122] [104, 105]))) = [] \<and>
   sends (on_message ex_DiscordBot ex_globals send_returns
            (ex_discord_message (Some 5) 7 222 [104, 105])) = [] \<and>
   filter reads_stoat_channels
     (effects (on_message ex_DiscordBot ex_globals send_returns
                 (ex_discord_message (Some 5) 7 222 [104, 105]))) = []"
proof -
  let ?m = "ex_stoat_message [117] [122] [104, 105]"
  let ?dm = "ex_discord_message (Some 5) 7 222 [104, 105]"
  have s: "dict_get (STOAT_TO_DISCORD ex_globals) (sm_channel_id ?m) = None"
    by (simp add: ex_stoat_message_def ex_globals_def dict_get_def)
  have d: "dict_get (DISCORD_TO_STOAT ex_globals) (dm_channel_id ?dm) = None"
    by (simp add: ex_discord_message_def ex_globals_def dict_get_def)
  show ?thesis
    using C9_unconfigured_channel_ignored [where g = ex_globals and msg = ?m and message = ?dm
        and sbot = ex_StoatBot and dbot = ex_DiscordBot and wsend = send_returns
        and csend = send_returns] s d
    by blast
qed

end
